theory Spec2Isabelle
  imports Main
begin

section \<open>The chat session store (src/lib/stores/chat-store.ts)\<close>

subsection \<open>Data model\<close>

text \<open>
  The interfaces \<^verbatim>\<open>MessageAttachment\<close>, \<^verbatim>\<open>ChatMessage\<close> and \<^verbatim>\<open>ChatState\<close>.
  An optional property \<^verbatim>\<open>p?: T\<close> is a \<open>T option\<close> (\<open>None\<close> when the property is
  absent or undefined); \<^verbatim>\<open>string | null\<close> is a \<open>string option\<close> (\<open>None\<close> for null).
  The field names \<^verbatim>\<open>id\<close>, \<^verbatim>\<open>text\<close>, \<^verbatim>\<open>name\<close>, \<^verbatim>\<open>size\<close> and \<^verbatim>\<open>type\<close> carry a suffix.
\<close>

record MessageAttachment =
  id_att :: string
  name_att :: string
  size_att :: int
  type_att :: string
  upload_file_id :: string

text \<open>The properties of a \<^verbatim>\<open>ChatMessage\<close> other than its \<^verbatim>\<open>id\<close>.\<close>

record MessageData =
  text_msg :: string
  isUser :: bool
  isStreaming :: "bool option"
  wasManuallyStopped :: "bool option"
  error :: "string option option"
  attachments :: "MessageAttachment list option"

record ChatMessage = MessageData +
  id_msg :: string

text \<open>
  The argument of \<^verbatim>\<open>addMessage\<close>, declared \<^verbatim>\<open>Omit<ChatMessage, 'id'>\<close>. The declared
  type names no \<^verbatim>\<open>id\<close>, but it does not exclude an object that has one: only a fresh
  object literal is checked for excess properties, so a value held in a variable (a
  \<^verbatim>\<open>ChatMessage\<close>, say) is accepted with its \<^verbatim>\<open>id\<close>. \<open>id_own\<close> is that property:
  \<open>None\<close> when the argument has no \<^verbatim>\<open>id\<close> of its own. (An own \<^verbatim>\<open>id\<close> that is not a
  string is left out: the list is declared \<^verbatim>\<open>ChatMessage[]\<close>, whose ids are strings.)
\<close>

record AddArgument = MessageData +
  id_own :: "string option"

record ChatState =
  messages :: "ChatMessage list"
  streamingMessageId :: "string option"
  isWaitingForResponse :: bool
  currentConversationId :: "string option"
  currentTaskId :: "string option"

subsection \<open>The store\<close>

text \<open>The initial state of \<^verbatim>\<open>useChatStore\<close> (source lines 105 to 109).\<close>

definition initial_state :: ChatState where
  "initial_state =
     \<lparr>messages = [], streamingMessageId = None, isWaitingForResponse = False,
      currentConversationId = None, currentTaskId = None\<rparr>"

text \<open>
  The id \<^verbatim>\<open>`msg-${Date.now()}-${Math.random().toString(36).substring(2, 9)}`\<close>.
  The clock reading \<open>now\<close> (milliseconds, printed in decimal) and the random suffix
  \<open>rnd\<close> (the substring of the base-36 rendering) are inputs from the environment.
\<close>

definition digit_char :: "nat \<Rightarrow> char" where
  "digit_char d = char_of (48 + d)"

fun show_nat :: "nat \<Rightarrow> string" where
  "show_nat n =
     (if n < 10 then [digit_char n] else show_nat (n div 10) @ [digit_char (n mod 10)])"

declare show_nat.simps [simp del]

definition generate_id :: "nat \<Rightarrow> string \<Rightarrow> string" where
  "generate_id now rnd = ''msg-'' @ show_nat now @ ''-'' @ rnd"

text \<open>
  \<^verbatim>\<open>const newMessage = { id, ...messageData }\<close>: the spread comes after \<^verbatim>\<open>id\<close>, so
  every property of the argument is copied over the object built so far, and an
  \<^verbatim>\<open>id\<close> of the argument replaces the generated one.
\<close>

definition new_message :: "string \<Rightarrow> AddArgument \<Rightarrow> ChatMessage" where
  "new_message i messageData =
     \<lparr>text_msg = text_msg messageData, isUser = isUser messageData,
      isStreaming = isStreaming messageData,
      wasManuallyStopped = wasManuallyStopped messageData,
      error = error messageData, attachments = attachments messageData,
      id_msg = (case id_own messageData of None \<Rightarrow> i | Some own \<Rightarrow> own)\<rparr>"

text \<open>
  Every action is one call of zustand's \<^verbatim>\<open>set\<close>, which merges the returned partial
  object into the state: the fields not named keep their value. \<^verbatim>\<open>addMessage\<close>
  also returns the message it built. The test \<^verbatim>\<open>messageData.isStreaming ? ...\<close> is
  truthiness: it holds for \<^verbatim>\<open>true\<close> only, not for \<^verbatim>\<open>false\<close> or an absent property.
  The pointer is set to the generated \<^verbatim>\<open>id\<close> (source line 118), whatever id the stored
  message has.
\<close>

definition addMessage :: "nat \<Rightarrow> string \<Rightarrow> AddArgument \<Rightarrow> ChatState \<Rightarrow> ChatMessage \<times> ChatState" where
  "addMessage now rnd messageData state =
     (let i = generate_id now rnd;
          newMessage = new_message i messageData
      in (newMessage,
          state\<lparr>messages := messages state @ [newMessage],
                streamingMessageId :=
                  (if isStreaming messageData = Some True then Some i
                   else streamingMessageId state)\<rparr>))"

definition appendMessageChunk :: "string \<Rightarrow> string \<Rightarrow> ChatState \<Rightarrow> ChatState" where
  "appendMessageChunk i chunk state =
     state\<lparr>messages :=
       map (\<lambda>message. if id_msg message = i
                       then message\<lparr>text_msg := text_msg message @ chunk\<rparr>
                       else message)
           (messages state)\<rparr>"

definition finalizeStreamingMessage :: "string \<Rightarrow> ChatState \<Rightarrow> ChatState" where
  "finalizeStreamingMessage i state =
     state\<lparr>messages :=
             map (\<lambda>message. if id_msg message = i
                             then message\<lparr>isStreaming := Some False\<rparr>
                             else message)
                 (messages state),
           streamingMessageId :=
             (if streamingMessageId state = Some i then None else streamingMessageId state)\<rparr>"

definition markAsManuallyStopped :: "string \<Rightarrow> ChatState \<Rightarrow> ChatState" where
  "markAsManuallyStopped i state =
     state\<lparr>messages :=
             map (\<lambda>message. if id_msg message = i
                             then message\<lparr>wasManuallyStopped := Some True,
                                          isStreaming := Some False\<rparr>
                             else message)
                 (messages state),
           streamingMessageId :=
             (if streamingMessageId state = Some i then None else streamingMessageId state)\<rparr>"

definition setMessageError :: "string \<Rightarrow> string option \<Rightarrow> ChatState \<Rightarrow> ChatState" where
  "setMessageError i err state =
     state\<lparr>messages :=
       map (\<lambda>message. if id_msg message = i then message\<lparr>error := Some err\<rparr> else message)
           (messages state)\<rparr>"

definition clearMessages :: "ChatState \<Rightarrow> ChatState" where
  "clearMessages state = state\<lparr>messages := [], streamingMessageId := None\<rparr>"

definition setIsWaitingForResponse :: "bool \<Rightarrow> ChatState \<Rightarrow> ChatState" where
  "setIsWaitingForResponse status state = state\<lparr>isWaitingForResponse := status\<rparr>"

definition setCurrentConversationId :: "string option \<Rightarrow> ChatState \<Rightarrow> ChatState" where
  "setCurrentConversationId conversationId state =
     state\<lparr>currentConversationId := conversationId\<rparr>"

definition setCurrentTaskId :: "string option \<Rightarrow> ChatState \<Rightarrow> ChatState" where
  "setCurrentTaskId taskId state = state\<lparr>currentTaskId := taskId\<rparr>"

text \<open>
  \<^verbatim>\<open>state.isWaitingForResponse || state.streamingMessageId !== null\<close>
\<close>

definition selectIsProcessing :: "ChatState \<Rightarrow> bool" where
  "selectIsProcessing state \<longleftrightarrow>
     isWaitingForResponse state \<or> streamingMessageId state \<noteq> None"

subsection \<open>Sequences of store operations\<close>

text \<open>
  One constructor for each action of the store, with the environment's inputs of
  \<^verbatim>\<open>addMessage\<close>; \<open>step\<close> applies one action and \<open>run\<close> a sequence of them, in order.
\<close>

datatype action =
    AddMessage nat string AddArgument
  | AppendMessageChunk string string
  | FinalizeStreamingMessage string
  | MarkAsManuallyStopped string
  | SetMessageError string "string option"
  | ClearMessages
  | SetIsWaitingForResponse bool
  | SetCurrentConversationId "string option"
  | SetCurrentTaskId "string option"

fun step :: "ChatState \<Rightarrow> action \<Rightarrow> ChatState" where
  "step s (AddMessage now rnd d) = snd (addMessage now rnd d s)"
| "step s (AppendMessageChunk i chunk) = appendMessageChunk i chunk s"
| "step s (FinalizeStreamingMessage i) = finalizeStreamingMessage i s"
| "step s (MarkAsManuallyStopped i) = markAsManuallyStopped i s"
| "step s (SetMessageError i err) = setMessageError i err s"
| "step s ClearMessages = clearMessages s"
| "step s (SetIsWaitingForResponse b) = setIsWaitingForResponse b s"
| "step s (SetCurrentConversationId c) = setCurrentConversationId c s"
| "step s (SetCurrentTaskId t) = setCurrentTaskId t s"

fun run :: "ChatState \<Rightarrow> action list \<Rightarrow> ChatState" where
  "run s [] = s"
| "run s (a # as) = run (step s a) as"

text \<open>The number of messages whose \<^verbatim>\<open>isStreaming\<close> is \<^verbatim>\<open>true\<close>.\<close>

definition streaming_count :: "ChatMessage list \<Rightarrow> nat" where
  "streaming_count ms = length (filter (\<lambda>m. isStreaming m = Some True) ms)"

text \<open>
  The pointer invariant: \<^verbatim>\<open>streamingMessageId\<close>, when it is not null, is the id of a
  message of the list whose \<^verbatim>\<open>isStreaming\<close> is \<^verbatim>\<open>true\<close>.
\<close>

definition pointer_valid :: "ChatState \<Rightarrow> bool" where
  "pointer_valid s =
     (case streamingMessageId s of
        None \<Rightarrow> True
      | Some p \<Rightarrow> list_ex (\<lambda>m. id_msg m = p \<and> isStreaming m = Some True) (messages s))"

text \<open>
  The calling discipline under which the store keeps a single streaming message:
  \<^verbatim>\<open>addMessage\<close> with \<^verbatim>\<open>isStreaming: true\<close> is issued only while
  \<^verbatim>\<open>streamingMessageId\<close> is null.
\<close>

fun one_stream_at_a_time :: "ChatState \<Rightarrow> action list \<Rightarrow> bool" where
  "one_stream_at_a_time s [] = True"
| "one_stream_at_a_time s (a # as) =
     ((case a of
         AddMessage now rnd d \<Rightarrow> isStreaming d = Some True \<longrightarrow> streamingMessageId s = None
       | _ \<Rightarrow> True)
      \<and> one_stream_at_a_time (step s a) as)"

text \<open>
  An action stores its streaming message under the generated id: it is not an
  \<^verbatim>\<open>addMessage\<close> with \<^verbatim>\<open>isStreaming: true\<close> whose argument has an \<^verbatim>\<open>id\<close> of its own.
\<close>

fun streams_under_generated_id :: "action \<Rightarrow> bool" where
  "streams_under_generated_id (AddMessage now rnd d) =
     (isStreaming d = Some True \<longrightarrow> id_own d = None)"
| "streams_under_generated_id _ = True"

text \<open>
  The invariant behind the single streaming message: at most one message is streaming,
  and every streaming message is the one the pointer names.
\<close>

definition single_stream :: "ChatState \<Rightarrow> bool" where
  "single_stream s \<longleftrightarrow>
     streaming_count (messages s) \<le> 1 \<and>
     list_all (\<lambda>m. isStreaming m = Some True \<longrightarrow> streamingMessageId s = Some (id_msg m))
       (messages s)"

subsection \<open>Example values\<close>

text \<open>
  The scenario of the store's description: a user message, then an assistant message
  added with \<^verbatim>\<open>isStreaming: true\<close>.
\<close>

definition user_hi :: AddArgument where
  "user_hi = \<lparr>text_msg = ''hi'', isUser = True, isStreaming = None,
     wasManuallyStopped = None, error = None, attachments = None, id_own = None\<rparr>"

definition assistant_streaming :: AddArgument where
  "assistant_streaming = \<lparr>text_msg = [], isUser = False, isStreaming = Some True,
     wasManuallyStopped = None, error = None, attachments = None, id_own = None\<rparr>"

text \<open>The same assistant message, passed as an object that has an \<^verbatim>\<open>id\<close> of its own.\<close>

definition assistant_with_id :: AddArgument where
  "assistant_with_id = assistant_streaming\<lparr>id_own := Some ''x''\<rparr>"

definition id_U :: string where "id_U = generate_id 1 ''aaaaaaa''"
definition id_A :: string where "id_A = generate_id 1 ''bbbbbbb''"

definition first_turn :: "action list" where
  "first_turn = [AddMessage 1 ''aaaaaaa'' user_hi, AddMessage 1 ''bbbbbbb'' assistant_streaming]"

definition streaming_state :: ChatState where
  "streaming_state = run initial_state first_turn"

section \<open>The API key access layer (src/lib/db/api-keys.ts)\<close>

subsection \<open>Rows, requests and collaborators\<close>

text \<open>
  Modelled from the spec: the row type \<^verbatim>\<open>ApiKey\<close> of \<^verbatim>\<open>src/lib/types/database\<close>, whose
  declaration is not among the sources. The columns are those the specification names
  for the table (id, service_instance_id, is_default, key_value, created_at,
  updated_at); \<open>other_columns\<close> stands for whatever further columns the declaration
  has. \<open>ApiKeyInput\<close> is \<^verbatim>\<open>Omit<ApiKey, 'id' | 'created_at' | 'updated_at'>\<close> and
  \<open>ApiKeyUpdates\<close> is its \<^verbatim>\<open>Partial\<close>: every property may be absent.
\<close>

record 'c ApiKeyInput =
  service_instance_id :: string
  is_default :: bool
  key_value :: string
  other_columns :: 'c

record 'c ApiKey = "'c ApiKeyInput" +
  id_key :: string
  created_at :: string
  updated_at :: string

record 'u ApiKeyUpdates =
  upd_service_instance_id :: "string option"
  upd_is_default :: "bool option"
  upd_key_value :: "string option"
  upd_other_columns :: 'u

text \<open>
  A thrown value (a rejected promise, for these \<^verbatim>\<open>async\<close> functions) and the error
  object of a backend response are opaque; both are carried as their message.
\<close>

type_synonym fault = string
type_synonym db_error = string

text \<open>
  The Supabase client resolves every query to a pair \<^verbatim>\<open>{ data, error }\<close>; the code
  reads failures of the backend from \<^verbatim>\<open>error\<close> and never asks the client to throw.
  Each field may be null.
\<close>

record 'd response =
  data_resp :: "'d option"
  error_resp :: "db_error option"

text \<open>The six queries the module sends, with the values it sends.\<close>

datatype ('c, 'u) db_request =
    SelectDefaultKey string
  | InsertKey "'c ApiKeyInput"
  | UpdateKey string "'u ApiKeyUpdates"
  | DeleteKey string
  | SelectKeyValue string
  | RpcIncrementUsage string

text \<open>
  The backend answers each query; what it answers is not this module's business, so
  the client is a parameter: one response function for each query.
  \<open>select_key_value\<close> answers with the \<^verbatim>\<open>key_value\<close> of the row
  \<^verbatim>\<open>{ key_value }\<close> it found.
\<close>

record ('c, 'u) supabase_client =
  select_default :: "string \<Rightarrow> 'c ApiKey response"
  insert_single :: "'c ApiKeyInput \<Rightarrow> 'c ApiKey response"
  update_single :: "string \<Rightarrow> 'u ApiKeyUpdates \<Rightarrow> 'c ApiKey response"
  delete_eq :: "string \<Rightarrow> unit response"
  select_key_value :: "string \<Rightarrow> string response"
  rpc_increment :: "string \<Rightarrow> unit response"

text \<open>
  What the module runs against: the environment variable, the two functions of
  \<^verbatim>\<open>../utils/encryption\<close> (not among the sources: parameters, which may throw) and
  the client.
\<close>

record ('c, 'u) world =
  API_ENCRYPTION_KEY :: "string option"
  encryptApiKey :: "string \<Rightarrow> string \<Rightarrow> fault + string"
  decryptApiKey :: "string \<Rightarrow> string \<Rightarrow> fault + string"
  supabase :: "('c, 'u) supabase_client"

text \<open>The calls of \<^verbatim>\<open>console.error\<close>, one constructor for each message of the module.\<close>

datatype diagnostic =
    GetApiKeyFailed "db_error option"
  | EncryptionKeyMissingCannotEncrypt
  | CreateApiKeyFailed "db_error option"
  | UpdateApiKeyFailed "db_error option"
  | DeleteApiKeyFailed "db_error option"
  | EncryptionKeyMissingCannotDecrypt
  | DecryptApiKeyFailed fault
  | IncrementUsageFailed "db_error option"

text \<open>
  One call of a function of the module: the queries it sent, what it logged, and how
  it ended: \<open>Inr v\<close> when it returned \<open>v\<close> (\<open>None\<close> is null), \<open>Inl f\<close> when \<open>f\<close> was
  thrown to the caller.
\<close>

record ('c, 'u, 'a) outcome =
  requests :: "('c, 'u) db_request list"
  logs :: "diagnostic list"
  result :: "fault + 'a"

subsection \<open>The functions\<close>

text \<open>
  \<^verbatim>\<open>if (error || !data)\<close> on a response: an error object and a row are objects, so each
  is truthy exactly when it is not null.
\<close>

definition failed :: "'d response \<Rightarrow> bool" where
  "failed r \<longleftrightarrow> error_resp r \<noteq> None \<or> data_resp r = None"

definition getApiKeyByServiceInstance ::
  "('c, 'u) world \<Rightarrow> string \<Rightarrow> ('c, 'u, 'c ApiKey option) outcome" where
  "getApiKeyByServiceInstance w serviceInstanceId =
     (let r = select_default (supabase w) serviceInstanceId
      in if failed r
         then \<lparr>requests = [SelectDefaultKey serviceInstanceId],
               logs = [GetApiKeyFailed (error_resp r)], result = Inr None\<rparr>
         else \<lparr>requests = [SelectDefaultKey serviceInstanceId],
               logs = [], result = Inr (data_resp r)\<rparr>)"

text \<open>The second half of \<^verbatim>\<open>createApiKey\<close> (source lines 57 to 71), for the row to insert.\<close>

definition insert_key :: "('c, 'u) world \<Rightarrow> 'c ApiKeyInput \<Rightarrow> ('c, 'u, 'c ApiKey option) outcome" where
  "insert_key w row =
     (let r = insert_single (supabase w) row
      in if failed r
         then \<lparr>requests = [InsertKey row], logs = [CreateApiKeyFailed (error_resp r)],
               result = Inr None\<rparr>
         else \<lparr>requests = [InsertKey row], logs = [], result = Inr (data_resp r)\<rparr>)"

text \<open>
  \<^verbatim>\<open>createApiKey\<close>. \<^verbatim>\<open>!masterKey\<close> holds for an unset variable and for the empty
  string. The call of \<^verbatim>\<open>encryptApiKey\<close> is not inside a \<^verbatim>\<open>try\<close>: what it throws
  leaves the function.
\<close>

definition createApiKey ::
  "('c, 'u) world \<Rightarrow> 'c ApiKeyInput \<Rightarrow> bool \<Rightarrow> ('c, 'u, 'c ApiKey option) outcome" where
  "createApiKey w apiKey isEncrypted =
     (if \<not> isEncrypted then
        (case API_ENCRYPTION_KEY w of
           None \<Rightarrow>
             \<lparr>requests = [], logs = [EncryptionKeyMissingCannotEncrypt], result = Inr None\<rparr>
         | Some masterKey \<Rightarrow>
             if masterKey = [] then
               \<lparr>requests = [], logs = [EncryptionKeyMissingCannotEncrypt], result = Inr None\<rparr>
             else
               (case encryptApiKey w (key_value apiKey) masterKey of
                  Inl f \<Rightarrow> \<lparr>requests = [], logs = [], result = Inl f\<rparr>
                | Inr keyValue \<Rightarrow> insert_key w (apiKey\<lparr>key_value := keyValue\<rparr>)))
      else insert_key w (apiKey\<lparr>key_value := key_value apiKey\<rparr>))"

text \<open>The second half of \<^verbatim>\<open>updateApiKey\<close> (source lines 96 to 108).\<close>

definition update_key ::
  "('c, 'u) world \<Rightarrow> string \<Rightarrow> 'u ApiKeyUpdates \<Rightarrow> ('c, 'u, 'c ApiKey option) outcome" where
  "update_key w i updates =
     (let r = update_single (supabase w) i updates
      in if failed r
         then \<lparr>requests = [UpdateKey i updates], logs = [UpdateApiKeyFailed (error_resp r)],
               result = Inr None\<rparr>
         else \<lparr>requests = [UpdateKey i updates], logs = [], result = Inr (data_resp r)\<rparr>)"

text \<open>
  \<^verbatim>\<open>updateApiKey\<close>. The guard \<^verbatim>\<open>updates.key_value && !isEncrypted\<close> tests the
  truthiness of the string: an absent \<^verbatim>\<open>key_value\<close> and the empty string both skip
  the encryption. As in \<^verbatim>\<open>createApiKey\<close>, \<^verbatim>\<open>encryptApiKey\<close> is called outside any
  \<^verbatim>\<open>try\<close>. (The assignment to \<^verbatim>\<open>updates.key_value\<close> also changes the caller's
  object; the model keeps only the value sent on.)
\<close>

definition updateApiKey ::
  "('c, 'u) world \<Rightarrow> string \<Rightarrow> 'u ApiKeyUpdates \<Rightarrow> bool \<Rightarrow> ('c, 'u, 'c ApiKey option) outcome" where
  "updateApiKey w i updates isEncrypted =
     (case upd_key_value updates of
        None \<Rightarrow> update_key w i updates
      | Some v \<Rightarrow>
          if v \<noteq> [] \<and> \<not> isEncrypted then
            (case API_ENCRYPTION_KEY w of
               None \<Rightarrow>
                 \<lparr>requests = [], logs = [EncryptionKeyMissingCannotEncrypt],
                  result = Inr None\<rparr>
             | Some masterKey \<Rightarrow>
                 if masterKey = [] then
                   \<lparr>requests = [], logs = [EncryptionKeyMissingCannotEncrypt],
                    result = Inr None\<rparr>
                 else
                   (case encryptApiKey w v masterKey of
                      Inl f \<Rightarrow> \<lparr>requests = [], logs = [], result = Inl f\<rparr>
                    | Inr keyValue \<Rightarrow>
                        update_key w i (updates\<lparr>upd_key_value := Some keyValue\<rparr>)))
          else update_key w i updates)"

definition deleteApiKey :: "('c, 'u) world \<Rightarrow> string \<Rightarrow> ('c, 'u, bool) outcome" where
  "deleteApiKey w i =
     (let r = delete_eq (supabase w) i
      in if error_resp r \<noteq> None
         then \<lparr>requests = [DeleteKey i], logs = [DeleteApiKeyFailed (error_resp r)],
               result = Inr False\<rparr>
         else \<lparr>requests = [DeleteKey i], logs = [], result = Inr True\<rparr>)"

text \<open>
  \<^verbatim>\<open>getDecryptedApiKey\<close>. Here the call of \<^verbatim>\<open>decryptApiKey\<close> is inside
  \<^verbatim>\<open>try ... catch\<close>: what it throws is logged and the function returns null.
\<close>

definition getDecryptedApiKey :: "('c, 'u) world \<Rightarrow> string \<Rightarrow> ('c, 'u, string option) outcome" where
  "getDecryptedApiKey w apiKeyId =
     (let r = select_key_value (supabase w) apiKeyId
      in case (error_resp r, data_resp r) of
           (None, Some kv) \<Rightarrow>
             (case API_ENCRYPTION_KEY w of
                None \<Rightarrow>
                  \<lparr>requests = [SelectKeyValue apiKeyId],
                   logs = [EncryptionKeyMissingCannotDecrypt], result = Inr None\<rparr>
              | Some masterKey \<Rightarrow>
                  if masterKey = [] then
                    \<lparr>requests = [SelectKeyValue apiKeyId],
                     logs = [EncryptionKeyMissingCannotDecrypt], result = Inr None\<rparr>
                  else
                    (case decryptApiKey w kv masterKey of
                       Inl err \<Rightarrow>
                         \<lparr>requests = [SelectKeyValue apiKeyId],
                          logs = [DecryptApiKeyFailed err], result = Inr None\<rparr>
                     | Inr plain \<Rightarrow>
                         \<lparr>requests = [SelectKeyValue apiKeyId], logs = [],
                          result = Inr (Some plain)\<rparr>))
         | _ \<Rightarrow>
             \<lparr>requests = [SelectKeyValue apiKeyId], logs = [GetApiKeyFailed (error_resp r)],
              result = Inr None\<rparr>)"

definition incrementApiKeyUsage :: "('c, 'u) world \<Rightarrow> string \<Rightarrow> ('c, 'u, bool) outcome" where
  "incrementApiKeyUsage w i =
     (let r = rpc_increment (supabase w) i
      in if error_resp r \<noteq> None
         then \<lparr>requests = [RpcIncrementUsage i], logs = [IncrementUsageFailed (error_resp r)],
               result = Inr False\<rparr>
         else \<lparr>requests = [RpcIncrementUsage i], logs = [], result = Inr True\<rparr>)"


subsection \<open>Example collaborators\<close>

text \<open>
  A backend holding one key, \<open>k1\<close>, for the service instance \<open>svc\<close>, and an
  encryption that wraps its argument; \<open>throwing_world\<close> is the same with an
  \<^verbatim>\<open>encryptApiKey\<close> that throws.
\<close>

definition stored_row :: "unit ApiKeyInput \<Rightarrow> unit ApiKey" where
  "stored_row a =
     \<lparr>service_instance_id = service_instance_id a, is_default = is_default a,
      key_value = key_value a, other_columns = (), id_key = ''k1'',
      created_at = ''2025-01-01'', updated_at = ''2025-01-01''\<rparr>"

definition demo_key :: "unit ApiKeyInput" where
  "demo_key = \<lparr>service_instance_id = ''svc'', is_default = True, key_value = ''secret'',
     other_columns = ()\<rparr>"

definition demo_updates :: "unit ApiKeyUpdates" where
  "demo_updates = \<lparr>upd_service_instance_id = None, upd_is_default = None,
     upd_key_value = Some ''secret2'', upd_other_columns = ()\<rparr>"

definition blank_updates :: "unit ApiKeyUpdates" where
  "blank_updates = \<lparr>upd_service_instance_id = None, upd_is_default = None,
     upd_key_value = Some [], upd_other_columns = ()\<rparr>"

definition demo_client :: "(unit, unit) supabase_client" where
  "demo_client =
     \<lparr>select_default = (\<lambda>sid. if sid = ''svc''
          then \<lparr>data_resp = Some (stored_row (demo_key\<lparr>key_value := ''enc(secret)''\<rparr>)),
                error_resp = None\<rparr>
          else \<lparr>data_resp = None, error_resp = Some ''no rows''\<rparr>),
      insert_single = (\<lambda>a. \<lparr>data_resp = Some (stored_row a), error_resp = None\<rparr>),
      update_single = (\<lambda>i u. if i = ''k1''
          then \<lparr>data_resp = Some (stored_row (demo_key\<lparr>key_value :=
                  (case upd_key_value u of Some v \<Rightarrow> v | None \<Rightarrow> ''enc(secret)'')\<rparr>)),
                error_resp = None\<rparr>
          else \<lparr>data_resp = None, error_resp = Some ''no rows''\<rparr>),
      delete_eq = (\<lambda>i. \<lparr>data_resp = None, error_resp = None\<rparr>),
      select_key_value = (\<lambda>i. if i = ''k1''
          then \<lparr>data_resp = Some ''enc(secret)'', error_resp = None\<rparr>
          else \<lparr>data_resp = None, error_resp = Some ''no rows''\<rparr>),
      rpc_increment = (\<lambda>i. if i = ''k1'' then \<lparr>data_resp = None, error_resp = None\<rparr>
          else \<lparr>data_resp = None, error_resp = Some ''unknown key''\<rparr>)\<rparr>"

definition demo_world :: "(unit, unit) world" where
  "demo_world =
     \<lparr>API_ENCRYPTION_KEY = Some ''master'',
      encryptApiKey = (\<lambda>v k. Inr (''enc('' @ v @ '')'')),
      decryptApiKey = (\<lambda>c k. if c = ''enc(secret)'' then Inr ''secret''
                               else Inl ''bad ciphertext''),
      supabase = demo_client\<rparr>"

definition throwing_world :: "(unit, unit) world" where
  "throwing_world = demo_world\<lparr>encryptApiKey := (\<lambda>v k. Inl ''encrypt failed'')\<rparr>"

section \<open>Properties of the chat session store\<close>

subsection \<open>Auxiliary facts\<close>

lemma length_filter_mono:
  "(\<And>x. x \<in> set xs \<Longrightarrow> Q x \<Longrightarrow> P x) \<Longrightarrow> length (filter Q xs) \<le> length (filter P xs)"
  by (induction xs) auto

lemma streaming_state_eq:
  "streaming_state =
     \<lparr>messages = [new_message id_U user_hi, new_message id_A assistant_streaming],
      streamingMessageId = Some id_A, isWaitingForResponse = False,
      currentConversationId = None, currentTaskId = None\<rparr>"
  by (simp add: streaming_state_def first_turn_def initial_state_def addMessage_def Let_def
      id_U_def id_A_def user_hi_def assistant_streaming_def)

lemma ids_differ: "id_U \<noteq> id_A" "id_A \<noteq> id_U"
  by (simp_all add: id_U_def id_A_def generate_id_def)

lemma at_most_one_nth:
  "length (filter P xs) \<le> 1 \<Longrightarrow> j < length xs \<Longrightarrow> k < length xs \<Longrightarrow> P (xs ! j) \<Longrightarrow> P (xs ! k) \<Longrightarrow> j = k"
proof (induction xs arbitrary: j k)
  case Nil
  then show ?case by simp
next
  case (Cons x xs)
  show ?case
  proof (cases "P x")
    case True
    with Cons.prems(1) have "filter P xs = []" by simp
    then have none: "\<And>n. n < length xs \<Longrightarrow> \<not> P (xs ! n)"
      by (simp add: filter_empty_conv)
    show ?thesis
    proof (cases j)
      case 0
      then show ?thesis using Cons.prems none by (cases k) auto
    next
      case (Suc j')
      then show ?thesis using Cons.prems none by auto
    qed
  next
    case False
    with Cons.prems have le: "length (filter P xs) \<le> 1" by simp
    from False Cons.prems obtain j' k' where jk: "j = Suc j'" "k = Suc k'"
      by (cases j; cases k) auto
    with Cons.prems have "j' = k'" by (intro Cons.IH[OF le]) auto
    with jk show ?thesis by simp
  qed
qed

lemma list_all_mapI: "(\<And>x. x \<in> set xs \<Longrightarrow> P (f x)) \<Longrightarrow> list_all P (map f xs)"
  by (induction xs) auto

lemma messages_finalize:
  "messages (finalizeStreamingMessage i s) =
     map (\<lambda>message. if id_msg message = i then message\<lparr>isStreaming := Some False\<rparr>
                     else message) (messages s)"
  by (simp add: finalizeStreamingMessage_def)

lemma messages_stop:
  "messages (markAsManuallyStopped i s) =
     map (\<lambda>message. if id_msg message = i
                     then message\<lparr>wasManuallyStopped := Some True, isStreaming := Some False\<rparr>
                     else message) (messages s)"
  by (simp add: markAsManuallyStopped_def)

lemma messages_append:
  "messages (appendMessageChunk i chunk s) =
     map (\<lambda>message. if id_msg message = i
                     then message\<lparr>text_msg := text_msg message @ chunk\<rparr>
                     else message) (messages s)"
  by (simp add: appendMessageChunk_def)

lemma other_id: "id_U \<noteq> ''other''" "id_A \<noteq> ''other''"
  by (simp_all add: id_U_def id_A_def generate_id_def)

subsection \<open>The pointer invariant is kept by every action\<close>

lemma pv_add:
  "pointer_valid s \<Longrightarrow> isStreaming d = Some True \<longrightarrow> id_own d = None
   \<Longrightarrow> pointer_valid (snd (addMessage now rnd d s))"
  by (auto simp: pointer_valid_def addMessage_def Let_def new_message_def list_ex_iff
      split: option.splits)

lemma list_ex_map_keep:
  "list_ex P xs \<Longrightarrow> (\<And>x. x \<in> set xs \<Longrightarrow> P x \<Longrightarrow> P (f x)) \<Longrightarrow> list_ex P (map f xs)"
  by (induction xs) auto

lemma pv_append: "pointer_valid s \<Longrightarrow> pointer_valid (appendMessageChunk i c s)"
  by (auto simp: pointer_valid_def appendMessageChunk_def split: option.splits
      intro!: list_ex_map_keep)

lemma pv_finalize: "pointer_valid s \<Longrightarrow> pointer_valid (finalizeStreamingMessage i s)"
  by (auto simp: pointer_valid_def finalizeStreamingMessage_def split: option.splits
      intro!: list_ex_map_keep)

lemma pv_stop: "pointer_valid s \<Longrightarrow> pointer_valid (markAsManuallyStopped i s)"
  by (auto simp: pointer_valid_def markAsManuallyStopped_def split: option.splits
      intro!: list_ex_map_keep)

lemma pv_error: "pointer_valid s \<Longrightarrow> pointer_valid (setMessageError i e s)"
  by (auto simp: pointer_valid_def setMessageError_def split: option.splits
      intro!: list_ex_map_keep)

lemma pv_other:
  "pointer_valid s \<Longrightarrow> pointer_valid (clearMessages s)"
  "pointer_valid s \<Longrightarrow> pointer_valid (setIsWaitingForResponse b s)"
  "pointer_valid s \<Longrightarrow> pointer_valid (setCurrentConversationId c s)"
  "pointer_valid s \<Longrightarrow> pointer_valid (setCurrentTaskId t s)"
  by (simp_all add: pointer_valid_def clearMessages_def setIsWaitingForResponse_def
       setCurrentConversationId_def setCurrentTaskId_def split: option.splits)

lemma pv_step:
  "pointer_valid s \<Longrightarrow> streams_under_generated_id a \<Longrightarrow> pointer_valid (step s a)"
  by (cases a) (simp_all add: pv_add pv_append pv_finalize pv_stop pv_error pv_other)

lemma pv_run:
  "pointer_valid s \<Longrightarrow> list_all streams_under_generated_id as \<Longrightarrow> pointer_valid (run s as)"
  by (induction as arbitrary: s) (simp_all add: pv_step)

lemma pv_init: "pointer_valid initial_state"
  by (simp add: pointer_valid_def initial_state_def)

subsection \<open>A single streaming message under the calling discipline\<close>

lemma streaming_count_map_le:
  "(\<And>m. m \<in> set ms \<Longrightarrow> isStreaming (f m) = Some True \<Longrightarrow> isStreaming m = Some True)
   \<Longrightarrow> streaming_count (map f ms) \<le> streaming_count ms"
  unfolding streaming_count_def filter_map length_map o_def
  by (rule length_filter_mono) simp

lemma streaming_count_zero:
  "list_all (\<lambda>m. isStreaming m \<noteq> Some True) ms \<Longrightarrow> streaming_count ms = 0"
  by (induction ms) (simp_all add: streaming_count_def)

lemma ss_add:
  assumes "single_stream s" "isStreaming d = Some True \<longrightarrow> streamingMessageId s = None"
    and "isStreaming d = Some True \<longrightarrow> id_own d = None"
  shows "single_stream (snd (addMessage now rnd d s))"
proof (cases "isStreaming d = Some True")
  case True
  with assms have none: "streamingMessageId s = None" and own: "id_own d = None" by simp_all
  with assms(1) have "list_all (\<lambda>m. isStreaming m \<noteq> Some True) (messages s)"
    by (simp add: single_stream_def list_all_iff)
  then have z: "streaming_count (messages s) = 0" and
    all: "\<forall>m\<in>set (messages s). isStreaming m \<noteq> Some True"
    by (simp_all add: streaming_count_zero list_all_iff)
  from z have "filter (\<lambda>m. isStreaming m = Some True) (messages s) = []"
    by (simp add: streaming_count_def)
  with True all own show ?thesis
    by (simp add: single_stream_def addMessage_def Let_def new_message_def
        streaming_count_def list_all_iff)
next
  case False
  with assms(1) show ?thesis
    by (simp add: single_stream_def addMessage_def Let_def new_message_def
        streaming_count_def list_all_iff)
qed

lemma ss_map:
  assumes ss: "single_stream s"
    and f: "\<And>m. isStreaming (f m) = Some True \<Longrightarrow> isStreaming m = Some True \<and> f m = m \<and> id_msg m \<noteq> i"
  shows "single_stream (s\<lparr>messages := map f (messages s),
           streamingMessageId := (if streamingMessageId s = Some i then None else streamingMessageId s)\<rparr>)"
proof -
  have "streaming_count (map f (messages s)) \<le> streaming_count (messages s)"
    by (rule streaming_count_map_le) (use f in blast)
  with ss have c: "streaming_count (map f (messages s)) \<le> 1"
    by (simp add: single_stream_def)
  have "\<forall>m\<in>set (messages s). isStreaming (f m) = Some True \<longrightarrow>
          (if streamingMessageId s = Some i then None else streamingMessageId s) = Some (id_msg (f m))"
  proof (intro ballI impI)
    fix m assume m: "m \<in> set (messages s)" and st: "isStreaming (f m) = Some True"
    from f[OF st] have *: "isStreaming m = Some True" "f m = m" "id_msg m \<noteq> i" by simp_all
    from ss m *(1) have "streamingMessageId s = Some (id_msg m)"
      by (simp add: single_stream_def list_all_iff)
    with * show "(if streamingMessageId s = Some i then None else streamingMessageId s) = Some (id_msg (f m))"
      by simp
  qed
  with c show ?thesis by (simp add: single_stream_def list_all_iff)
qed

lemma ss_finalize: "single_stream s \<Longrightarrow> single_stream (finalizeStreamingMessage i s)"
  unfolding finalizeStreamingMessage_def by (rule ss_map) (auto split: if_splits)

lemma ss_stop: "single_stream s \<Longrightarrow> single_stream (markAsManuallyStopped i s)"
  unfolding markAsManuallyStopped_def by (rule ss_map) (auto split: if_splits)

lemma ss_map_same:
  assumes ss: "single_stream s"
    and f: "\<And>m. isStreaming (f m) = isStreaming m \<and> id_msg (f m) = id_msg m"
  shows "single_stream (s\<lparr>messages := map f (messages s)\<rparr>)"
proof -
  have "streaming_count (map f (messages s)) \<le> streaming_count (messages s)"
    by (rule streaming_count_map_le) (simp add: f)
  with ss show ?thesis by (simp add: single_stream_def list_all_iff f)
qed

lemma ss_append: "single_stream s \<Longrightarrow> single_stream (appendMessageChunk i c s)"
  unfolding appendMessageChunk_def by (rule ss_map_same) auto

lemma ss_error: "single_stream s \<Longrightarrow> single_stream (setMessageError i e s)"
  unfolding setMessageError_def by (rule ss_map_same) auto

lemma ss_other:
  "single_stream (clearMessages s)"
  "single_stream s \<Longrightarrow> single_stream (setIsWaitingForResponse b s)"
  "single_stream s \<Longrightarrow> single_stream (setCurrentConversationId c s)"
  "single_stream s \<Longrightarrow> single_stream (setCurrentTaskId t s)"
  by (simp_all add: single_stream_def clearMessages_def setIsWaitingForResponse_def
       setCurrentConversationId_def setCurrentTaskId_def streaming_count_def)

lemma ss_run:
  "single_stream s \<Longrightarrow> one_stream_at_a_time s as \<Longrightarrow> list_all streams_under_generated_id as
   \<Longrightarrow> single_stream (run s as)"
proof (induction as arbitrary: s)
  case Nil
  then show ?case by simp
next
  case (Cons a as)
  from Cons.prems have "single_stream (step s a)"
    by (cases a) (simp_all add: ss_add ss_append ss_finalize ss_stop ss_error ss_other)
  with Cons show ?case by simp
qed

lemma ss_init: "single_stream initial_state"
  by (simp add: single_stream_def initial_state_def streaming_count_def)

text \<open>
  The discipline cannot be weakened: where the pointer invariant holds, an
  \<^verbatim>\<open>addMessage\<close> with \<^verbatim>\<open>isStreaming: true\<close> issued while the pointer is not null leaves
  at least two streaming messages.
\<close>

lemma overlapping_add_gives_two:
  assumes "pointer_valid s" and "streamingMessageId s \<noteq> None" and "isStreaming d = Some True"
  shows "2 \<le> streaming_count (messages (snd (addMessage now rnd d s)))"
proof -
  from assms(1,2) obtain m where "m \<in> set (messages s)" "isStreaming m = Some True"
    by (auto simp: pointer_valid_def list_ex_iff)
  then have "filter (\<lambda>m. isStreaming m = Some True) (messages s) \<noteq> []"
    by (auto simp: filter_empty_conv)
  then have "1 \<le> streaming_count (messages s)"
    by (cases "filter (\<lambda>m. isStreaming m = Some True) (messages s)")
       (simp_all add: streaming_count_def)
  with assms(3) show ?thesis
    by (simp add: addMessage_def Let_def new_message_def streaming_count_def)
qed

subsection \<open>Claims\<close>

text \<open>
  The condition on the argument cannot be dropped either: an \<^verbatim>\<open>addMessage\<close> with
  \<^verbatim>\<open>isStreaming: true\<close> whose argument has an \<^verbatim>\<open>id\<close> of its own stores the message
  under that id and points at the generated one. Finalizing the generated id then
  clears the pointer and touches no message, and a second streaming message may be
  added while the pointer is null.
\<close>

lemma own_id_defeats_discipline:
  "one_stream_at_a_time initial_state
     [AddMessage 1 ''aaaaaaa'' assistant_with_id, FinalizeStreamingMessage id_U,
      AddMessage 1 ''bbbbbbb'' assistant_streaming]
   \<and> streaming_count (messages (run initial_state
     [AddMessage 1 ''aaaaaaa'' assistant_with_id, FinalizeStreamingMessage id_U,
      AddMessage 1 ''bbbbbbb'' assistant_streaming])) = 2"
  by (simp add: streaming_count_def initial_state_def addMessage_def Let_def
      finalizeStreamingMessage_def new_message_def assistant_with_id_def
      assistant_streaming_def id_U_def generate_id_def)

text \<open>
  C1 (amended). For every sequence of store actions from the initial state in which
  \<^verbatim>\<open>addMessage\<close> with \<^verbatim>\<open>isStreaming: true\<close> is only issued while \<^verbatim>\<open>streamingMessageId\<close> is
  null, and only with an argument that has no \<^verbatim>\<open>id\<close> of its own, at most one message
  of the list has \<^verbatim>\<open>isStreaming = true\<close>: the count of such messages is at most one,
  and two positions that both hold a streaming message are the same position.
\<close>

theorem single_streaming_message:
  assumes "one_stream_at_a_time initial_state as"
    and "list_all streams_under_generated_id as"
  shows "streaming_count (messages (run initial_state as)) \<le> 1
       \<and> (\<forall>j k. j < length (messages (run initial_state as))
              \<and> k < length (messages (run initial_state as))
              \<and> isStreaming (messages (run initial_state as) ! j) = Some True
              \<and> isStreaming (messages (run initial_state as) ! k) = Some True
              \<longrightarrow> j = k)"
proof -
  from ss_run[OF ss_init assms]
  have c: "streaming_count (messages (run initial_state as)) \<le> 1"
    by (simp add: single_stream_def)
  then have "length (filter (\<lambda>m. isStreaming m = Some True) (messages (run initial_state as))) \<le> 1"
    by (simp add: streaming_count_def)
  from at_most_one_nth[OF this] c show ?thesis by blast
qed

text \<open>
  C1 as stated fails: two calls of \<^verbatim>\<open>addMessage\<close> with \<^verbatim>\<open>isStreaming: true\<close>, with nothing
  in between, leave two messages with \<^verbatim>\<open>isStreaming = true\<close>. The second call moves the
  pointer and does not touch the first message.
\<close>

theorem two_streaming_messages:
  "streaming_count (messages (run initial_state
      [AddMessage 1 ''aaaaaaa'' assistant_streaming,
       AddMessage 1 ''bbbbbbb'' assistant_streaming])) = 2"
  by (simp add: streaming_count_def initial_state_def addMessage_def Let_def
      new_message_def assistant_streaming_def)

theorem single_streaming_message_witness:
  "one_stream_at_a_time initial_state (first_turn @ [FinalizeStreamingMessage id_A,
      AddMessage 2 ''ccccccc'' assistant_streaming])
   \<and> list_all streams_under_generated_id (first_turn @ [FinalizeStreamingMessage id_A,
      AddMessage 2 ''ccccccc'' assistant_streaming])
   \<and> streaming_count (messages (run initial_state (first_turn @ [FinalizeStreamingMessage id_A,
      AddMessage 2 ''ccccccc'' assistant_streaming]))) \<le> 1"
proof -
  have h: "one_stream_at_a_time initial_state (first_turn @ [FinalizeStreamingMessage id_A,
      AddMessage 2 ''ccccccc'' assistant_streaming])"
    by (simp add: first_turn_def initial_state_def addMessage_def Let_def id_A_def
        finalizeStreamingMessage_def user_hi_def assistant_streaming_def)
  have g: "list_all streams_under_generated_id (first_turn @ [FinalizeStreamingMessage id_A,
      AddMessage 2 ''ccccccc'' assistant_streaming])"
    by (simp add: first_turn_def user_hi_def assistant_streaming_def)
  from single_streaming_message[OF h g] h g show ?thesis by simp
qed

text \<open>
  C2 says that \<^verbatim>\<open>streamingMessageId\<close>, when it is not null, is the id of a message of
  the list whose \<^verbatim>\<open>isStreaming\<close> is \<^verbatim>\<open>true\<close>, after every sequence of actions and
  across every single action. The code breaks this in \<^verbatim>\<open>addMessage\<close>: the function is
  documented to return the message with the generated id and points
  \<^verbatim>\<open>streamingMessageId\<close> at the generated id, but \<^verbatim>\<open>{ id, ...messageData }\<close> lets an
  \<^verbatim>\<open>id\<close> of the argument replace it. One such call with \<^verbatim>\<open>isStreaming: true\<close>, from
  the initial state, stores the message under the argument's id and leaves the
  pointer at the generated id, which no message has.
\<close>

theorem own_id_breaks_pointer:
  "pointer_valid initial_state
   \<and> \<not> pointer_valid (step initial_state (AddMessage 1 ''aaaaaaa'' assistant_with_id))"
  by (simp add: pointer_valid_def initial_state_def addMessage_def Let_def new_message_def
      assistant_with_id_def assistant_streaming_def generate_id_def)

text \<open>
  Everywhere else the invariant is kept. It holds in the initial state; every action
  other than an \<^verbatim>\<open>addMessage\<close> with \<^verbatim>\<open>isStreaming: true\<close> and an \<^verbatim>\<open>id\<close> in its
  argument takes a state where it holds to a state where it holds (\<open>step\<close> covers the
  nine actions); and so it holds after every sequence of such actions from the initial
  state. \<^verbatim>\<open>finalizeStreamingMessage\<close> and \<^verbatim>\<open>markAsManuallyStopped\<close> on the message the
  pointer names clear the pointer in the same update that sets the flag to false: the
  one state they return has both.
\<close>

lemma pointer_invariant_without_own_id:
  "pointer_valid initial_state
   \<and> (pointer_valid s \<and> streams_under_generated_id a \<longrightarrow> pointer_valid (step s a))
   \<and> (list_all streams_under_generated_id as \<longrightarrow> pointer_valid (run initial_state as))
   \<and> (streamingMessageId s = Some i \<longrightarrow>
        streamingMessageId (finalizeStreamingMessage i s) = None
        \<and> list_all (\<lambda>m. id_msg m = i \<longrightarrow> isStreaming m = Some False)
             (messages (finalizeStreamingMessage i s))
        \<and> streamingMessageId (markAsManuallyStopped i s) = None
        \<and> list_all (\<lambda>m. id_msg m = i \<longrightarrow> isStreaming m = Some False)
             (messages (markAsManuallyStopped i s)))"
proof -
  have "list_all (\<lambda>m. id_msg m = i \<longrightarrow> isStreaming m = Some False)
          (messages (finalizeStreamingMessage i s))"
    unfolding messages_finalize by (rule list_all_mapI) simp
  moreover have "list_all (\<lambda>m. id_msg m = i \<longrightarrow> isStreaming m = Some False)
          (messages (markAsManuallyStopped i s))"
    unfolding messages_stop by (rule list_all_mapI) simp
  moreover have "streamingMessageId s = Some i \<longrightarrow>
      streamingMessageId (finalizeStreamingMessage i s) = None
      \<and> streamingMessageId (markAsManuallyStopped i s) = None"
    by (simp add: finalizeStreamingMessage_def markAsManuallyStopped_def)
  moreover have "pointer_valid s \<and> streams_under_generated_id a \<longrightarrow> pointer_valid (step s a)"
    by (simp add: pv_step)
  moreover have "list_all streams_under_generated_id as \<longrightarrow> pointer_valid (run initial_state as)"
    by (simp add: pv_run pv_init)
  ultimately show ?thesis
    using pv_init by blast
qed

lemma pointer_invariant_example:
  "pointer_valid streaming_state
   \<and> streams_under_generated_id (FinalizeStreamingMessage id_A)
   \<and> pointer_valid (step streaming_state (FinalizeStreamingMessage id_A))
   \<and> streams_under_generated_id (AddMessage 2 ''ccccccc'' assistant_streaming)
   \<and> pointer_valid (step streaming_state (AddMessage 2 ''ccccccc'' assistant_streaming))
   \<and> list_all streams_under_generated_id first_turn
   \<and> pointer_valid (run initial_state first_turn)
   \<and> streamingMessageId streaming_state = Some id_A
   \<and> streamingMessageId (finalizeStreamingMessage id_A streaming_state) = None
   \<and> streamingMessageId (markAsManuallyStopped id_A streaming_state) = None"
proof -
  have h: "pointer_valid streaming_state" "streamingMessageId streaming_state = Some id_A"
    by (simp_all add: streaming_state_eq pointer_valid_def new_message_def
        assistant_streaming_def)
  have g: "streams_under_generated_id (FinalizeStreamingMessage id_A)"
    "streams_under_generated_id (AddMessage 2 ''ccccccc'' assistant_streaming)"
    "list_all streams_under_generated_id first_turn"
    by (simp_all add: first_turn_def user_hi_def assistant_streaming_def)
  from h g
    pointer_invariant_without_own_id[of streaming_state "FinalizeStreamingMessage id_A"
      first_turn id_A]
    pointer_invariant_without_own_id[of streaming_state
      "AddMessage 2 ''ccccccc'' assistant_streaming" first_turn id_A]
  show ?thesis by simp
qed

text \<open>
  C3. \<^verbatim>\<open>finalizeStreamingMessage(id)\<close> sets \<^verbatim>\<open>isStreaming = false\<close> on every message whose
  id is \<open>i\<close> and leaves every other message, and the length and order of the list,
  as they were; with no message of that id the list is unchanged. The pointer becomes
  null when it was \<open>i\<close> and keeps its value otherwise; the other fields of the store
  keep their values.
\<close>

theorem finalizeStreamingMessage_effect:
  "length (messages (finalizeStreamingMessage i s)) = length (messages s)
   \<and> (\<forall>k<length (messages s).
        messages (finalizeStreamingMessage i s) ! k =
          (if id_msg (messages s ! k) = i then (messages s ! k)\<lparr>isStreaming := Some False\<rparr>
           else messages s ! k))
   \<and> ((\<forall>m\<in>set (messages s). id_msg m \<noteq> i) \<longrightarrow>
        messages (finalizeStreamingMessage i s) = messages s)
   \<and> (streamingMessageId s = Some i \<longrightarrow> streamingMessageId (finalizeStreamingMessage i s) = None)
   \<and> (streamingMessageId s \<noteq> Some i \<longrightarrow>
        streamingMessageId (finalizeStreamingMessage i s) = streamingMessageId s)
   \<and> isWaitingForResponse (finalizeStreamingMessage i s) = isWaitingForResponse s
   \<and> currentConversationId (finalizeStreamingMessage i s) = currentConversationId s
   \<and> currentTaskId (finalizeStreamingMessage i s) = currentTaskId s"
proof -
  have "(\<forall>m\<in>set (messages s). id_msg m \<noteq> i) \<longrightarrow>
        messages (finalizeStreamingMessage i s) = messages s"
    by (simp add: finalizeStreamingMessage_def map_idI)
  then show ?thesis by (simp add: finalizeStreamingMessage_def)
qed

theorem finalizeStreamingMessage_effect_witness:
  "messages (finalizeStreamingMessage id_A streaming_state) ! 1 =
     (new_message id_A assistant_streaming)\<lparr>isStreaming := Some False\<rparr>
   \<and> messages (finalizeStreamingMessage id_A streaming_state) ! 0 = new_message id_U user_hi
   \<and> streamingMessageId (finalizeStreamingMessage id_A streaming_state) = None
   \<and> messages (finalizeStreamingMessage ''other'' streaming_state) = messages streaming_state
   \<and> streamingMessageId (finalizeStreamingMessage id_U streaming_state) = Some id_A"
  using finalizeStreamingMessage_effect[of id_A streaming_state]
    finalizeStreamingMessage_effect[of "''other''" streaming_state]
    finalizeStreamingMessage_effect[of id_U streaming_state]
  by (simp add: streaming_state_eq new_message_def user_hi_def assistant_streaming_def
      ids_differ id_U_def id_A_def generate_id_def)

text \<open>
  C4. \<^verbatim>\<open>markAsManuallyStopped(id)\<close> sets \<^verbatim>\<open>wasManuallyStopped = true\<close> and
  \<^verbatim>\<open>isStreaming = false\<close> together on every message whose id is \<open>i\<close> (the state it
  returns has both on each of them), leaves the other messages alone, changes nothing
  in the list when no message has that id, and clears the pointer when it was \<open>i\<close>.
  When \<open>i\<close> was the pointer and \<^verbatim>\<open>isWaitingForResponse\<close> is false,
  \<^verbatim>\<open>selectIsProcessing\<close> is true before the call and false after it.
\<close>

theorem markAsManuallyStopped_effect:
  "length (messages (markAsManuallyStopped i s)) = length (messages s)
   \<and> (\<forall>k<length (messages s).
        messages (markAsManuallyStopped i s) ! k =
          (if id_msg (messages s ! k) = i
           then (messages s ! k)\<lparr>wasManuallyStopped := Some True, isStreaming := Some False\<rparr>
           else messages s ! k))
   \<and> list_all (\<lambda>m. id_msg m = i \<longrightarrow>
               wasManuallyStopped m = Some True \<and> isStreaming m = Some False)
         (messages (markAsManuallyStopped i s))
   \<and> ((\<forall>m\<in>set (messages s). id_msg m \<noteq> i) \<longrightarrow>
        messages (markAsManuallyStopped i s) = messages s)
   \<and> (streamingMessageId s = Some i \<longrightarrow> streamingMessageId (markAsManuallyStopped i s) = None)
   \<and> (streamingMessageId s \<noteq> Some i \<longrightarrow>
        streamingMessageId (markAsManuallyStopped i s) = streamingMessageId s)
   \<and> isWaitingForResponse (markAsManuallyStopped i s) = isWaitingForResponse s
   \<and> currentConversationId (markAsManuallyStopped i s) = currentConversationId s
   \<and> currentTaskId (markAsManuallyStopped i s) = currentTaskId s
   \<and> (streamingMessageId s = Some i \<and> \<not> isWaitingForResponse s \<longrightarrow>
        selectIsProcessing s \<and> \<not> selectIsProcessing (markAsManuallyStopped i s))"
proof -
  have "(\<forall>m\<in>set (messages s). id_msg m \<noteq> i) \<longrightarrow>
        messages (markAsManuallyStopped i s) = messages s"
    by (simp add: messages_stop map_idI)
  moreover have "list_all (\<lambda>m. id_msg m = i \<longrightarrow>
               wasManuallyStopped m = Some True \<and> isStreaming m = Some False)
         (messages (markAsManuallyStopped i s))"
    unfolding messages_stop by (rule list_all_mapI) simp
  moreover have "\<forall>k<length (messages s).
        messages (markAsManuallyStopped i s) ! k =
          (if id_msg (messages s ! k) = i
           then (messages s ! k)\<lparr>wasManuallyStopped := Some True, isStreaming := Some False\<rparr>
           else messages s ! k)"
    by (simp add: messages_stop)
  moreover have "length (messages (markAsManuallyStopped i s)) = length (messages s)"
    by (simp add: messages_stop)
  moreover have "streamingMessageId s = Some i \<longrightarrow> streamingMessageId (markAsManuallyStopped i s) = None"
    by (simp add: markAsManuallyStopped_def)
  moreover have "streamingMessageId s \<noteq> Some i \<longrightarrow>
        streamingMessageId (markAsManuallyStopped i s) = streamingMessageId s"
    by (simp add: markAsManuallyStopped_def)
  moreover have "isWaitingForResponse (markAsManuallyStopped i s) = isWaitingForResponse s"
    "currentConversationId (markAsManuallyStopped i s) = currentConversationId s"
    "currentTaskId (markAsManuallyStopped i s) = currentTaskId s"
    by (simp_all add: markAsManuallyStopped_def)
  moreover have "streamingMessageId s = Some i \<and> \<not> isWaitingForResponse s \<longrightarrow>
        selectIsProcessing s \<and> \<not> selectIsProcessing (markAsManuallyStopped i s)"
    by (simp add: markAsManuallyStopped_def selectIsProcessing_def)
  ultimately show ?thesis by blast
qed

theorem markAsManuallyStopped_effect_witness:
  "messages (markAsManuallyStopped id_A streaming_state) ! 1 =
     (new_message id_A assistant_streaming)
       \<lparr>wasManuallyStopped := Some True, isStreaming := Some False\<rparr>
   \<and> messages (markAsManuallyStopped id_A streaming_state) ! 0 = new_message id_U user_hi
   \<and> streamingMessageId streaming_state = Some id_A
   \<and> \<not> isWaitingForResponse streaming_state
   \<and> streamingMessageId (markAsManuallyStopped id_A streaming_state) = None
   \<and> selectIsProcessing streaming_state
   \<and> \<not> selectIsProcessing (markAsManuallyStopped id_A streaming_state)
   \<and> messages (markAsManuallyStopped ''other'' streaming_state) = messages streaming_state"
  using markAsManuallyStopped_effect[of id_A streaming_state]
    markAsManuallyStopped_effect[of "''other''" streaming_state]
  by (simp add: streaming_state_eq new_message_def user_hi_def assistant_streaming_def
      ids_differ id_U_def id_A_def generate_id_def)

text \<open>
  C5. \<^verbatim>\<open>appendMessageChunk(id, chunk)\<close> replaces the text of every message whose id is
  \<open>i\<close> by the old text followed by the chunk, whatever its \<^verbatim>\<open>isStreaming\<close> flag, and
  changes no other field of a message and no other field of the store. With no message
  of that id the state is returned unchanged. Appending \<open>a\<close> and then \<open>b\<close> is
  appending \<open>a @ b\<close>.
\<close>

theorem appendMessageChunk_effect:
  "length (messages (appendMessageChunk i chunk s)) = length (messages s)
   \<and> (\<forall>k<length (messages s).
        messages (appendMessageChunk i chunk s) ! k =
          (if id_msg (messages s ! k) = i
           then (messages s ! k)\<lparr>text_msg := text_msg (messages s ! k) @ chunk\<rparr>
           else messages s ! k))
   \<and> ((\<forall>m\<in>set (messages s). id_msg m \<noteq> i) \<longrightarrow> appendMessageChunk i chunk s = s)
   \<and> streamingMessageId (appendMessageChunk i chunk s) = streamingMessageId s
   \<and> isWaitingForResponse (appendMessageChunk i chunk s) = isWaitingForResponse s
   \<and> currentConversationId (appendMessageChunk i chunk s) = currentConversationId s
   \<and> currentTaskId (appendMessageChunk i chunk s) = currentTaskId s
   \<and> appendMessageChunk i b (appendMessageChunk i a s) = appendMessageChunk i (a @ b) s
   \<and> appendMessageChunk i ''b'' (appendMessageChunk i ''a'' s) = appendMessageChunk i ''ab'' s"
proof -
  have noop: "(\<forall>m\<in>set (messages s). id_msg m \<noteq> i) \<longrightarrow> appendMessageChunk i chunk s = s"
    by (simp add: appendMessageChunk_def map_idI)
  have twice: "appendMessageChunk i y (appendMessageChunk i x s) = appendMessageChunk i (x @ y) s"
    for x y
    by (simp add: appendMessageChunk_def)
  have nth: "\<forall>k<length (messages s).
        messages (appendMessageChunk i chunk s) ! k =
          (if id_msg (messages s ! k) = i
           then (messages s ! k)\<lparr>text_msg := text_msg (messages s ! k) @ chunk\<rparr>
           else messages s ! k)"
    by (simp add: messages_append)
  from twice[of "''b''" "''a''"] have "appendMessageChunk i ''b'' (appendMessageChunk i ''a'' s) = appendMessageChunk i ''ab'' s"
    by simp
  moreover have "length (messages (appendMessageChunk i chunk s)) = length (messages s)"
    by (simp add: messages_append)
  moreover have "streamingMessageId (appendMessageChunk i chunk s) = streamingMessageId s"
    "isWaitingForResponse (appendMessageChunk i chunk s) = isWaitingForResponse s"
    "currentConversationId (appendMessageChunk i chunk s) = currentConversationId s"
    "currentTaskId (appendMessageChunk i chunk s) = currentTaskId s"
    by (simp_all add: appendMessageChunk_def)
  moreover note noop nth twice[of b a]
  ultimately show ?thesis by blast
qed
theorem appendMessageChunk_effect_witness:
  "messages (appendMessageChunk id_A ''He'' streaming_state) ! 1 =
     (new_message id_A assistant_streaming)\<lparr>text_msg := ''He''\<rparr>
   \<and> messages (appendMessageChunk id_A ''He'' streaming_state) ! 0 = new_message id_U user_hi
   \<and> appendMessageChunk ''other'' ''He'' streaming_state = streaming_state
   \<and> text_msg (messages (appendMessageChunk id_A ''llo''
         (appendMessageChunk id_A ''He'' streaming_state)) ! 1) = ''Hello''
   \<and> text_msg (messages (appendMessageChunk id_A ''!''
         (finalizeStreamingMessage id_A (appendMessageChunk id_A ''Hello'' streaming_state))) ! 1)
       = ''Hello!''"
proof -
  have st: "messages streaming_state = [new_message id_U user_hi, new_message id_A assistant_streaming]"
    by (simp add: streaming_state_eq)
  have ids: "id_msg (new_message id_U user_hi) = id_U" "id_msg (new_message id_A assistant_streaming) = id_A"
    "text_msg (new_message id_A assistant_streaming) = []"
    by (simp_all add: new_message_def assistant_streaming_def user_hi_def)
  have other: "\<forall>m\<in>set (messages streaming_state). id_msg m \<noteq> ''other''"
    by (simp add: st ids other_id)
  from appendMessageChunk_effect[of id_A "''He''" streaming_state]
  have a: "messages (appendMessageChunk id_A ''He'' streaming_state) ! 1 =
     (new_message id_A assistant_streaming)\<lparr>text_msg := ''He''\<rparr>"
    "messages (appendMessageChunk id_A ''He'' streaming_state) ! 0 = new_message id_U user_hi"
    by (simp_all add: st ids ids_differ)
  from appendMessageChunk_effect[of "''other''" "''He''" streaming_state] other
  have b: "appendMessageChunk ''other'' ''He'' streaming_state = streaming_state"
    by blast
  from appendMessageChunk_effect[of id_A "''Hello''" streaming_state "''llo''" "''He''"]
  have c: "text_msg (messages (appendMessageChunk id_A ''llo''
         (appendMessageChunk id_A ''He'' streaming_state)) ! 1) = ''Hello''"
    by (simp add: st ids ids_differ)
  have d: "text_msg (messages (appendMessageChunk id_A ''!''
         (finalizeStreamingMessage id_A (appendMessageChunk id_A ''Hello'' streaming_state))) ! 1)
       = ''Hello!''"
    by (simp add: messages_append messages_finalize st ids)
  from a b c d show ?thesis by blast
qed

text \<open>
  C6. \<^verbatim>\<open>clearMessages()\<close> empties the list and sets the pointer to null;
  \<^verbatim>\<open>isWaitingForResponse\<close>, \<^verbatim>\<open>currentConversationId\<close> and \<^verbatim>\<open>currentTaskId\<close> keep the
  values they had.
\<close>

theorem clearMessages_effect:
  "messages (clearMessages s) = []
   \<and> streamingMessageId (clearMessages s) = None
   \<and> isWaitingForResponse (clearMessages s) = isWaitingForResponse s
   \<and> currentConversationId (clearMessages s) = currentConversationId s
   \<and> currentTaskId (clearMessages s) = currentTaskId s"
  by (simp add: clearMessages_def)

theorem clearMessages_effect_witness:
  "messages (clearMessages (setCurrentTaskId (Some ''t1'')
      (setCurrentConversationId (Some ''c1'') (setIsWaitingForResponse True streaming_state)))) = []
   \<and> streamingMessageId (clearMessages (setCurrentTaskId (Some ''t1'')
      (setCurrentConversationId (Some ''c1'') (setIsWaitingForResponse True streaming_state)))) = None
   \<and> isWaitingForResponse (clearMessages (setCurrentTaskId (Some ''t1'')
      (setCurrentConversationId (Some ''c1'') (setIsWaitingForResponse True streaming_state))))
   \<and> currentConversationId (clearMessages (setCurrentTaskId (Some ''t1'')
      (setCurrentConversationId (Some ''c1'') (setIsWaitingForResponse True streaming_state))))
       = Some ''c1''
   \<and> currentTaskId (clearMessages (setCurrentTaskId (Some ''t1'')
      (setCurrentConversationId (Some ''c1'') (setIsWaitingForResponse True streaming_state))))
       = Some ''t1''"
  using clearMessages_effect[of "setCurrentTaskId (Some ''t1'')
      (setCurrentConversationId (Some ''c1'') (setIsWaitingForResponse True streaming_state))"]
  by (simp add: setCurrentTaskId_def setCurrentConversationId_def setIsWaitingForResponse_def)

text \<open>
  C7. \<^verbatim>\<open>selectIsProcessing\<close> is true exactly when \<^verbatim>\<open>isWaitingForResponse\<close> is true or
  \<^verbatim>\<open>streamingMessageId\<close> is not null.
\<close>

theorem selectIsProcessing_iff:
  "selectIsProcessing s \<longleftrightarrow>
     isWaitingForResponse s = True \<or> (\<exists>i. streamingMessageId s = Some i)"
  by (simp add: selectIsProcessing_def)

theorem selectIsProcessing_iff_witness:
  "selectIsProcessing streaming_state
   \<and> \<not> selectIsProcessing initial_state
   \<and> selectIsProcessing (setIsWaitingForResponse True initial_state)
   \<and> \<not> selectIsProcessing (finalizeStreamingMessage id_A streaming_state)"
  using selectIsProcessing_iff[of streaming_state] selectIsProcessing_iff[of initial_state]
    selectIsProcessing_iff[of "setIsWaitingForResponse True initial_state"]
    selectIsProcessing_iff[of "finalizeStreamingMessage id_A streaming_state"]
  by (simp add: streaming_state_eq initial_state_def setIsWaitingForResponse_def
      finalizeStreamingMessage_def)

section \<open>Properties of the API key access layer\<close>

subsection \<open>Auxiliary facts\<close>

lemma requests_insert_key: "requests (insert_key w row) = [InsertKey row]"
  by (simp add: insert_key_def Let_def)

lemma requests_update_key: "requests (update_key w i u) = [UpdateKey i u]"
  by (simp add: update_key_def Let_def)

lemma result_insert_key:
  "result (insert_key w row) =
     Inr (if failed (insert_single (supabase w) row) then None
          else data_resp (insert_single (supabase w) row))"
  by (simp add: insert_key_def Let_def)

lemma result_update_key:
  "result (update_key w i u) =
     Inr (if failed (update_single (supabase w) i u) then None
          else data_resp (update_single (supabase w) i u))"
  by (simp add: update_key_def Let_def)

lemma insert_key_env [simp]: "insert_key (w\<lparr>API_ENCRYPTION_KEY := e\<rparr>) row = insert_key w row"
  by (simp add: insert_key_def)

lemma update_key_env [simp]: "update_key (w\<lparr>API_ENCRYPTION_KEY := e\<rparr>) i u = update_key w i u"
  by (simp add: update_key_def)

text \<open>
  The four functions that do not encrypt always return; the two that write throw only
  what \<^verbatim>\<open>encryptApiKey\<close> threw.
\<close>

lemma reads_and_deletes_return:
  "(\<exists>v. result (getApiKeyByServiceInstance w sid) = Inr v)
   \<and> (\<exists>v. result (deleteApiKey w i) = Inr v)
   \<and> (\<exists>v. result (getDecryptedApiKey w i) = Inr v)
   \<and> (\<exists>v. result (incrementApiKeyUsage w i) = Inr v)"
proof -
  have "\<exists>v. result (getApiKeyByServiceInstance w sid) = Inr v"
    by (simp add: getApiKeyByServiceInstance_def Let_def)
  moreover have "\<exists>v. result (deleteApiKey w i) = Inr v"
    by (auto simp: deleteApiKey_def Let_def)
  moreover have "\<exists>v. result (getDecryptedApiKey w i) = Inr v"
    by (simp add: getDecryptedApiKey_def Let_def split: option.splits sum.splits)
  moreover have "\<exists>v. result (incrementApiKeyUsage w i) = Inr v"
    by (auto simp: incrementApiKeyUsage_def Let_def)
  ultimately show ?thesis by blast
qed

lemma writes_throw_only_from_encrypt:
  "(result (createApiKey w apiKey isEncrypted) = Inl f \<longrightarrow>
      \<not> isEncrypted \<and> (\<exists>mk. API_ENCRYPTION_KEY w = Some mk
         \<and> encryptApiKey w (key_value apiKey) mk = Inl f))
   \<and> (result (updateApiKey w i updates isEncrypted) = Inl f \<longrightarrow>
      \<not> isEncrypted \<and> (\<exists>mk v. API_ENCRYPTION_KEY w = Some mk \<and> upd_key_value updates = Some v
         \<and> encryptApiKey w v mk = Inl f))"
  by (auto simp: createApiKey_def updateApiKey_def result_insert_key result_update_key
      split: option.splits sum.splits if_splits)

subsection \<open>Claims\<close>

text \<open>
  C8 says that no function of the layer lets a fault reach its caller, whatever fails
  downstream, a fault thrown by the encrypt/decrypt collaborator included. The code
  breaks this in \<^verbatim>\<open>createApiKey\<close> and \<^verbatim>\<open>updateApiKey\<close>: with the master key configured
  and \<^verbatim>\<open>isEncrypted = false\<close>, a fault thrown by \<^verbatim>\<open>encryptApiKey\<close> is the outcome of the
  call, where \<^verbatim>\<open>getDecryptedApiKey\<close> catches the fault of \<^verbatim>\<open>decryptApiKey\<close> and returns
  null.
\<close>

theorem encrypt_fault_leaves_create_and_update:
  "result (createApiKey throwing_world demo_key False) = Inl ''encrypt failed''
   \<and> result (updateApiKey throwing_world ''k1'' demo_updates False) = Inl ''encrypt failed''"
  by (simp add: createApiKey_def updateApiKey_def throwing_world_def demo_world_def
      demo_key_def demo_updates_def)

text \<open>
  C9 says that with \<^verbatim>\<open>isEncrypted = false\<close> and the master key configured, the
  \<^verbatim>\<open>key_value\<close> written is the encryption of the supplied one, for \<^verbatim>\<open>updateApiKey\<close>
  whenever the update has a \<^verbatim>\<open>key_value\<close>. The code breaks this for the empty string:
  the guard \<^verbatim>\<open>updates.key_value && !isEncrypted\<close> tests the truthiness of the string,
  so an update whose \<^verbatim>\<open>key_value\<close> is \<^verbatim>\<open>''\<close> is sent to the table as it is, where the
  comment above the guard says a supplied, unencrypted key value is to be encrypted and
  \<^verbatim>\<open>createApiKey\<close> encrypts the same value.
\<close>

theorem blank_key_value_written_unencrypted:
  "upd_key_value blank_updates = Some []
   \<and> API_ENCRYPTION_KEY demo_world = Some ''master''
   \<and> encryptApiKey demo_world [] ''master'' = Inr ''enc()''
   \<and> requests (updateApiKey demo_world ''k1'' blank_updates False) =
       [UpdateKey ''k1'' blank_updates]
   \<and> requests (createApiKey demo_world (demo_key\<lparr>key_value := []\<rparr>) False) =
       [InsertKey (demo_key\<lparr>key_value := ''enc()''\<rparr>)]"
  by (simp add: updateApiKey_def createApiKey_def requests_update_key requests_insert_key
      blank_updates_def demo_world_def demo_key_def)

text \<open>
  This is so for every backend and every encryption: an update whose \<^verbatim>\<open>key_value\<close> is
  the empty string takes the path of an update without one.
\<close>

lemma blank_update_sent_as_is:
  "upd_key_value updates = Some [] \<Longrightarrow>
   updateApiKey w i updates isEncrypted = update_key w i updates"
  by (simp add: updateApiKey_def)

text \<open>
  For every other write the claim holds. With \<^verbatim>\<open>isEncrypted = false\<close> and
  \<^verbatim>\<open>API_ENCRYPTION_KEY\<close> set to a non-empty string, \<^verbatim>\<open>createApiKey\<close> inserts the row with
  \<^verbatim>\<open>key_value\<close> replaced by \<^verbatim>\<open>encryptApiKey(key_value, masterKey)\<close>, for any
  \<^verbatim>\<open>key_value\<close>, and \<^verbatim>\<open>updateApiKey\<close>, when the update has a non-empty \<^verbatim>\<open>key_value\<close>,
  sends the update with that field replaced by its encryption. When \<^verbatim>\<open>encryptApiKey\<close>
  throws, nothing is sent.
\<close>

lemma plaintext_encrypted_on_write:
  assumes "API_ENCRYPTION_KEY w = Some masterKey" and "masterKey \<noteq> []"
  shows "requests (createApiKey w apiKey False) =
           (case encryptApiKey w (key_value apiKey) masterKey of
              Inl f \<Rightarrow> []
            | Inr c \<Rightarrow> [InsertKey (apiKey\<lparr>key_value := c\<rparr>)])
       \<and> (upd_key_value updates = Some v \<and> v \<noteq> [] \<longrightarrow>
            requests (updateApiKey w i updates False) =
              (case encryptApiKey w v masterKey of
                 Inl f \<Rightarrow> []
               | Inr c \<Rightarrow> [UpdateKey i (updates\<lparr>upd_key_value := Some c\<rparr>)]))"
  using assms
  by (simp add: createApiKey_def updateApiKey_def requests_insert_key requests_update_key
      split: sum.splits)

lemma plaintext_encrypted_on_write_example:
  "API_ENCRYPTION_KEY demo_world = Some ''master'' \<and> ''master'' \<noteq> []
   \<and> upd_key_value demo_updates = Some ''secret2'' \<and> ''secret2'' \<noteq> []
   \<and> requests (createApiKey demo_world demo_key False) =
        [InsertKey (demo_key\<lparr>key_value := ''enc(secret)''\<rparr>)]
   \<and> requests (updateApiKey demo_world ''k1'' demo_updates False) =
        [UpdateKey ''k1'' (demo_updates\<lparr>upd_key_value := Some ''enc(secret2)''\<rparr>)]"
proof -
  have h: "API_ENCRYPTION_KEY demo_world = Some ''master''" "''master'' \<noteq> []"
    "upd_key_value demo_updates = Some ''secret2''" "''secret2'' \<noteq> []"
    by (simp_all add: demo_world_def demo_updates_def)
  have e: "encryptApiKey demo_world (key_value demo_key) ''master'' = Inr ''enc(secret)''"
    "encryptApiKey demo_world ''secret2'' ''master'' = Inr ''enc(secret2)''"
    by (simp_all add: demo_world_def demo_key_def)
  from plaintext_encrypted_on_write[OF h(1,2), of demo_key demo_updates "''secret2''" "''k1''"] h e
  show ?thesis by simp
qed

text \<open>
  C10. With \<^verbatim>\<open>isEncrypted = true\<close>, \<^verbatim>\<open>createApiKey\<close> and \<^verbatim>\<open>updateApiKey\<close> send the
  supplied \<^verbatim>\<open>key_value\<close> verbatim, and the whole outcome (queries, log, result) is the
  same for any two values of \<^verbatim>\<open>API_ENCRYPTION_KEY\<close>, unset included. With the
  variable unset, the call returns the row of the backend's response whenever that
  response is not a failure.
\<close>

theorem pre_encrypted_write_ignores_master_key:
  "createApiKey (w\<lparr>API_ENCRYPTION_KEY := ea\<rparr>) apiKey True =
     createApiKey (w\<lparr>API_ENCRYPTION_KEY := eb\<rparr>) apiKey True
   \<and> updateApiKey (w\<lparr>API_ENCRYPTION_KEY := ea\<rparr>) i updates True =
     updateApiKey (w\<lparr>API_ENCRYPTION_KEY := eb\<rparr>) i updates True
   \<and> requests (createApiKey w apiKey True) = [InsertKey apiKey]
   \<and> requests (updateApiKey w i updates True) = [UpdateKey i updates]
   \<and> (\<not> failed (insert_single (supabase w) apiKey) \<longrightarrow>
        data_resp (insert_single (supabase w) apiKey) \<noteq> None
        \<and> result (createApiKey (w\<lparr>API_ENCRYPTION_KEY := None\<rparr>) apiKey True) =
            Inr (data_resp (insert_single (supabase w) apiKey)))
   \<and> (\<not> failed (update_single (supabase w) i updates) \<longrightarrow>
        data_resp (update_single (supabase w) i updates) \<noteq> None
        \<and> result (updateApiKey (w\<lparr>API_ENCRYPTION_KEY := None\<rparr>) i updates True) =
            Inr (data_resp (update_single (supabase w) i updates)))"
proof -
  have c: "createApiKey w' apiKey True = insert_key w' apiKey" for w' :: "('a, 'b) world"
    by (simp add: createApiKey_def)
  have u: "updateApiKey w' i updates True = update_key w' i updates" for w' :: "('a, 'b) world"
    by (simp add: updateApiKey_def split: option.splits)
  show ?thesis
    unfolding c u
    by (auto simp: requests_insert_key requests_update_key result_insert_key result_update_key
        failed_def)
qed

theorem pre_encrypted_write_ignores_master_key_witness:
  "createApiKey (demo_world\<lparr>API_ENCRYPTION_KEY := None\<rparr>) demo_key True =
     createApiKey (demo_world\<lparr>API_ENCRYPTION_KEY := Some ''master''\<rparr>) demo_key True
   \<and> requests (createApiKey demo_world demo_key True) = [InsertKey demo_key]
   \<and> requests (updateApiKey demo_world ''k1'' demo_updates True) = [UpdateKey ''k1'' demo_updates]
   \<and> \<not> failed (insert_single (supabase demo_world) demo_key)
   \<and> result (createApiKey (demo_world\<lparr>API_ENCRYPTION_KEY := None\<rparr>) demo_key True) =
       Inr (Some (stored_row demo_key))
   \<and> \<not> failed (update_single (supabase demo_world) ''k1'' demo_updates)
   \<and> result (updateApiKey (demo_world\<lparr>API_ENCRYPTION_KEY := None\<rparr>) ''k1'' demo_updates True) =
       Inr (Some (stored_row (demo_key\<lparr>key_value := ''secret2''\<rparr>)))"
proof -
  have h: "\<not> failed (insert_single (supabase demo_world) demo_key)"
    "\<not> failed (update_single (supabase demo_world) ''k1'' demo_updates)"
    "data_resp (insert_single (supabase demo_world) demo_key) = Some (stored_row demo_key)"
    "data_resp (update_single (supabase demo_world) ''k1'' demo_updates) =
       Some (stored_row (demo_key\<lparr>key_value := ''secret2''\<rparr>))"
    by (simp_all add: failed_def demo_world_def demo_client_def demo_updates_def)
  from h pre_encrypted_write_ignores_master_key[where w = demo_world and ea = None
      and eb = "Some ''master''" and apiKey = demo_key and i = "''k1''" and updates = demo_updates]
  show ?thesis by auto
qed

end
